theory Spec2Isabelle
  imports Complex_Main
begin

section \<open>Conventions of the embedding\<close>

text \<open>
  The repository is numerical Python (numpy and PyTorch). An array is a list (a matrix
  the list of its rows). What Python raises is the left summand of a sum type.

  The numbers of numpy and torch are machine floats. Where a property depends on what the
  arithmetic computes, the arithmetic is a parameter: the operations of numpy on float64
  are the fields of the record \<open>np_float\<close>, and a theorem about \<open>relative_orientation\<close>
  holds for every such arithmetic, so also for the one of numpy with its rounding, its
  overflow and underflow, its infinities and its nan. The thresholds of the secondary
  structure assignment and the angle features of \<open>ProteinTransformer\<close> are written with
  real numbers; the theorems about them compare results of the same operations and do
  not depend on their values.
\<close>

datatype error = IndexError | ValueError | RuntimeError | TypeError | AttributeError

type_synonym vector = "real list"
type_synonym matrix = "real list list"


section \<open>utils/geometry.py: secondary structure assignment\<close>

text \<open>Python's \<open>a % b\<close> on numbers: the remainder has the sign of \<open>b\<close>.\<close>

definition pymod :: "real \<Rightarrow> real \<Rightarrow> real" where
  "pymod a b = a - b * of_int \<lfloor>a / b\<rfloor>"

text \<open>
  The loop \<open>for idx in range(3)\<close> of \<open>_assign_psea_aux\<close>. Each round reads
  \<open>distance_spec[idx]\<close>, then \<open>distances[idx + 2]\<close>; either read raises IndexError
  when the index is past the end.
\<close>

fun psea_distance_loop ::
  "nat list \<Rightarrow> real list \<Rightarrow> (real \<times> real) list \<Rightarrow> bool \<Rightarrow> error + bool" where
  "psea_distance_loop [] distances distance_spec good = Inr good"
| "psea_distance_loop (idx # rest) distances distance_spec good =
     (if length distance_spec \<le> idx then Inl IndexError
      else
        let (target, area) = distance_spec ! idx in
        if length distances \<le> idx + 2 then Inl IndexError
        else
          let fits = (target - area < distances ! (idx + 2)
                      \<and> distances ! (idx + 2) < target + area)
          in psea_distance_loop rest distances distance_spec (good \<and> fits))"

text \<open>
  \<open>_assign_psea_aux\<close> (an Isabelle name cannot start with an underscore). Python
  puts no type on \<open>angle\<close> and \<open>angle_spec\<close>, so they are of any type here.
\<close>

definition assign_psea_aux ::
  "real list \<Rightarrow> real \<Rightarrow> 'a \<Rightarrow> (real \<times> real) list \<Rightarrow> real \<times> real \<Rightarrow> 'b \<Rightarrow> error + bool" where
  "assign_psea_aux distances dihedral angle distance_spec dihedral_spec angle_spec =
     (case psea_distance_loop [0, 1, 2] distances distance_spec True of
        Inl e \<Rightarrow> Inl e
      | Inr good0 \<Rightarrow>
          let (target, area) = dihedral_spec;
              left = pymod ((target - area) + 180) 360 / 180 * pi;
              right = pymod ((target + area) + 180) 360 / 180 * pi;
              good1 = (good0 \<and> left < dihedral \<and> dihedral < right);
              (target, area) = dihedral_spec;
              left = pymod ((target - area) + 180) 360 / 180 * pi;
              right = pymod ((target + area) + 180) 360 / 180 * pi;
              good2 = (good1 \<and> left < dihedral \<and> dihedral < right)
          in Inr good2)"

text \<open>
  \<open>assign_psea\<close> from line 33 on. Its first four lines bind \<open>distances\<close>,
  \<open>dihedral\<close> and \<open>angle\<close> to numpy expressions in \<open>positions\<close>; they are the
  arguments here, so that the bond angle can be varied on its own.
\<close>

definition assign_psea :: "real list \<Rightarrow> real \<Rightarrow> real \<Rightarrow> error + int list" where
  "assign_psea distances dihedral angle =
     (let helix_angle = (89 :: real, 12 :: real);
          sheet_angle = (124 :: real, 14 :: real);
          helix_dihedral = (50, 20);
          sheet_dihedral = (-170, 45);
          helix_distances = [(5.5, 0.5), (5.3, 0.5), (6.4, 0.6)];
          sheet_distances = [(6.7, 0.6), (9.9, 0.9), (12.4, 1.1)]
      in case assign_psea_aux distances dihedral angle
                helix_distances helix_dihedral helix_angle of
           Inl e \<Rightarrow> Inl e
         | Inr is_helix \<Rightarrow>
             if is_helix then Inr [1, 0, 0]
             else (case assign_psea_aux distances dihedral angle
                         sheet_distances sheet_dihedral sheet_angle of
                     Inl e \<Rightarrow> Inl e
                   | Inr is_sheet \<Rightarrow>
                       if is_sheet then Inr [0, 1, 0] else Inr [0, 0, 1]))"

section \<open>utils/geometry.py: relative orientation\<close>

text \<open>
  The float64 arithmetic of numpy, on values of a type \<open>'f\<close> (the finite floats, the
  infinities and nan): the float of a Python literal, the four operations, the square
  root, the comparison \<open>==\<close>, \<open>np.linalg.norm\<close> of one column, and one entry of a
  product \<open>a @ b\<close> as a function of the row of \<open>a\<close> and the column of \<open>b\<close>.
\<close>

record 'f np_float =
  f_lit :: "real \<Rightarrow> 'f"
  f_add :: "'f \<Rightarrow> 'f \<Rightarrow> 'f"
  f_sub :: "'f \<Rightarrow> 'f \<Rightarrow> 'f"
  f_mul :: "'f \<Rightarrow> 'f \<Rightarrow> 'f"
  f_div :: "'f \<Rightarrow> 'f \<Rightarrow> 'f"
  f_sqrt :: "'f \<Rightarrow> 'f"
  f_eq :: "'f \<Rightarrow> 'f \<Rightarrow> bool"
  f_norm :: "'f list \<Rightarrow> 'f"
  f_dot :: "'f list \<Rightarrow> 'f list \<Rightarrow> 'f"

text \<open>
  A two-dimensional array is the list of its rows; the array without rows stands for the
  shape \<open>(0, 0)\<close>. \<open>column j m\<close> is \<open>m[:, j]\<close>.
\<close>

definition ncols :: "'a list list \<Rightarrow> nat" where
  "ncols m = (case m of [] \<Rightarrow> 0 | row # _ \<Rightarrow> length row)"

definition column :: "nat \<Rightarrow> 'a list list \<Rightarrow> 'a list" where
  "column j m = map (\<lambda>row. row ! j) m"

text \<open>\<open>has_shape r n m\<close>: the array \<open>m\<close> has \<open>r\<close> rows of \<open>n\<close> entries each.\<close>

definition has_shape :: "nat \<Rightarrow> nat \<Rightarrow> 'a list list \<Rightarrow> bool" where
  "has_shape r n m = (length m = r \<and> list_all (\<lambda>row. length row = n) m)"

text \<open>
  \<open>a - b\<close> on two-dimensional arrays, with numpy's broadcasting: the two sizes of a
  dimension have to agree or one of them has to be 1 (that array is then repeated along
  the dimension); otherwise numpy raises ValueError. \<open>mat_sub\<close> is the difference of
  two arrays of one shape, entry by entry.
\<close>

definition np_sub :: "'f np_float \<Rightarrow> 'f list list \<Rightarrow> 'f list list \<Rightarrow> error + 'f list list" where
  "np_sub A a b =
     (let ra = length a; ca = ncols a; rb = length b; cb = ncols b in
      if (ra = rb \<or> ra = 1 \<or> rb = 1) \<and> (ca = cb \<or> ca = 1 \<or> cb = 1) then
        Inr (map (\<lambda>i. map (\<lambda>j. f_sub A (a ! (if ra = 1 then 0 else i) ! (if ca = 1 then 0 else j))
                                       (b ! (if rb = 1 then 0 else i) ! (if cb = 1 then 0 else j)))
                        [0 ..< (if ca = 1 then cb else ca)])
                 [0 ..< (if ra = 1 then rb else ra)])
      else Inl ValueError)"

definition mat_sub :: "'f np_float \<Rightarrow> 'f list list \<Rightarrow> 'f list list \<Rightarrow> 'f list list" where
  "mat_sub A a b = map2 (map2 (f_sub A)) a b"

text \<open>The products \<open>a @ b\<close> and \<open>a @ v\<close>, entry by entry.\<close>

definition matmul :: "'f np_float \<Rightarrow> 'f list list \<Rightarrow> 'f list list \<Rightarrow> 'f list list" where
  "matmul A a b = map (\<lambda>row. map (\<lambda>col. f_dot A row col) (transpose b)) a"

definition matvec :: "'f np_float \<Rightarrow> 'f list list \<Rightarrow> 'f list \<Rightarrow> 'f list" where
  "matvec A a v = map (\<lambda>row. f_dot A row v) a"

text \<open>
  \<open>matrix_to_quaternion\<close>, the branch of a numpy matrix (the \<open>else\<close> of the
  \<open>isinstance\<close> test). The nine entries it reads are in the first three rows and
  columns; a matrix that lacks one of them raises IndexError. The arithmetic raises
  nothing: a square root of a negative number or a division by zero gives nan or an
  infinity.
\<close>

definition matrix_to_quaternion :: "'f np_float \<Rightarrow> 'f list list \<Rightarrow> error + 'f list" where
  "matrix_to_quaternion A m =
     (if length m < 3 \<or> length (m ! 0) < 3 \<or> length (m ! 1) < 3 \<or> length (m ! 2) < 3
      then Inl IndexError
      else
        let w = f_div A (f_sqrt A (f_add A (f_add A (f_add A (f_lit A 1.0) (m ! 0 ! 0))
                                                    (m ! 1 ! 1)) (m ! 2 ! 2)))
                        (f_lit A 2.0);
            w4 = f_mul A (f_lit A 4.0) w;
            x = f_div A (f_sub A (m ! 2 ! 1) (m ! 1 ! 2)) w4;
            y = f_div A (f_sub A (m ! 0 ! 2) (m ! 2 ! 0)) w4;
            z = f_div A (f_sub A (m ! 1 ! 0) (m ! 0 ! 1)) w4
        in Inr [w, x, y, z])"

text \<open>
  \<open>_np_relative_orientation\<close>, on two-dimensional arrays. \<open>distance\<close> holds
  \<open>np.linalg.norm\<close> of every column of \<open>offset\<close>; \<open>offset / distance\<close> divides column
  \<open>j\<close> by \<open>distance[j]\<close>; the assignment \<open>direction[:, distance == 0.0] = 0\<close> then
  overwrites the columns whose distance compares equal to zero. Each \<open>@\<close> raises
  ValueError unless the number of columns of its left argument \<open>x_o.T\<close>, that is the
  number of rows of \<open>x_o\<close>, is the number of rows of its right argument.
\<close>

definition np_relative_orientation ::
  "'f np_float \<Rightarrow> 'f list list \<Rightarrow> 'f list list \<Rightarrow> 'f list list \<Rightarrow> 'f list list
     \<Rightarrow> error + ('f list \<times> 'f list list \<times> 'f list)" where
  "np_relative_orientation A x y x_o y_o =
     (case np_sub A y x of
        Inl e \<Rightarrow> Inl e
      | Inr offset \<Rightarrow>
          let distance = map (\<lambda>j. f_norm A (column j offset)) [0 ..< ncols offset];
              quotient = map (\<lambda>row. map2 (f_div A) row distance) offset
          in if length x_o \<noteq> length quotient then Inl ValueError
             else
               let direction0 = matmul A (transpose x_o) quotient;
                   direction = map (\<lambda>row. map2 (\<lambda>e d. if f_eq A d (f_lit A 0.0)
                                                        then f_lit A 0 else e) row distance)
                                   direction0
               in if length x_o \<noteq> length y_o then Inl ValueError
                  else (case matrix_to_quaternion A (matmul A (transpose x_o) y_o) of
                          Inl e \<Rightarrow> Inl e
                        | Inr rotation \<Rightarrow> Inr (distance, direction, rotation)))"

text \<open>
  \<open>relative_orientation\<close> on numpy arrays: the test \<open>isinstance(x, torch.Tensor)\<close>
  fails and the call is that of \<open>_np_relative_orientation\<close>. The two branches for
  torch tensors are not part of this development.
\<close>

definition relative_orientation ::
  "'f np_float \<Rightarrow> 'f list list \<Rightarrow> 'f list list \<Rightarrow> 'f list list \<Rightarrow> 'f list list
     \<Rightarrow> error + ('f list \<times> 'f list list \<times> 'f list)" where
  "relative_orientation A x y x_o y_o = np_relative_orientation A x y x_o y_o"

text \<open>
  An arithmetic to run the definitions on: the real numbers with their exact operations,
  and \<open>None\<close> for a result that is not a finite number (the square root of a negative
  number and every division by zero; numpy gives nan for \<open>0/0\<close>). \<open>None\<close> compares
  equal to nothing, as nan does. On the arrays of the example below every finite
  intermediate value is a small integer, which the float64 arithmetic computes exactly as
  well.
\<close>

fun lift2 :: "(real \<Rightarrow> real \<Rightarrow> real) \<Rightarrow> real option \<Rightarrow> real option \<Rightarrow> real option" where
  "lift2 h (Some u) (Some v) = Some (h u v)"
| "lift2 h _ _ = None"

fun nan_div :: "real option \<Rightarrow> real option \<Rightarrow> real option" where
  "nan_div (Some u) (Some v) = (if v = 0 then None else Some (u / v))"
| "nan_div _ _ = None"

fun nan_sqrt :: "real option \<Rightarrow> real option" where
  "nan_sqrt (Some u) = (if u < 0 then None else Some (sqrt u))"
| "nan_sqrt None = None"

fun nan_sum :: "real option list \<Rightarrow> real option" where
  "nan_sum [] = Some 0"
| "nan_sum (e # rest) = lift2 (+) e (nan_sum rest)"

definition exact_arithmetic :: "real option np_float" where
  "exact_arithmetic =
     \<lparr> f_lit = Some, f_add = lift2 (+), f_sub = lift2 (-), f_mul = lift2 (*),
       f_div = nan_div, f_sqrt = nan_sqrt,
       f_eq = (\<lambda>a b. a \<noteq> None \<and> a = b),
       f_norm = (\<lambda>v. nan_sqrt (nan_sum (map (\<lambda>c. lift2 (*) c c) v))),
       f_dot = (\<lambda>u v. nan_sum (map2 (lift2 (*)) u v)) \<rparr>"


section \<open>modules/protein_transformer.py: the encoder block\<close>

text \<open>
  A tensor of the encoder is of an arbitrary type \<open>'t\<close> with an addition (torch's
  \<open>+\<close>); the structure argument is of an arbitrary type \<open>'s\<close>. A module is the
  function it computes. \<open>nn.Dropout\<close> draws a fresh random mask at every call in
  training mode, so a dropout module reads and advances the state \<open>'g\<close> of the random
  generator, which \<open>forward\<close> threads through its two calls.

  The modules that \<open>__init__\<close> obtains from constructors outside the file
  (\<open>connected(...)\<close>, \<open>MLP(...)\<close> of torchsupport, \<open>nn.Dropout(dropout)\<close> and the
  two \<open>nn.LayerNorm(size)\<close>) are the fields of \<open>block_parts\<close>; the sizes that
  \<open>__init__\<close> only hands on to those constructors are left out.
\<close>

record ('t, 's, 'g) block_parts =
  connected_module :: "'t \<Rightarrow> 't \<Rightarrow> 's \<Rightarrow> 't"
  MLP_module :: "'t \<Rightarrow> 't"
  Dropout_module :: "real \<Rightarrow> 'g \<Rightarrow> 't \<Rightarrow> 't \<times> 'g"
  LayerNorm_bn :: "'t \<Rightarrow> 't"
  LayerNorm_local_bn :: "'t \<Rightarrow> 't"

record ('t, 's, 'g) StructuredTransformerEncoderBlock =
  pre_norm :: bool
  batch_norm :: bool
  attention :: "'t \<Rightarrow> 't \<Rightarrow> 's \<Rightarrow> 't"
  local :: "'t \<Rightarrow> 't"
  dropout :: "'g \<Rightarrow> 't \<Rightarrow> 't \<times> 'g"
  bn :: "'t \<Rightarrow> 't"
  local_bn :: "'t \<Rightarrow> 't"

text \<open>\<open>StructuredTransformerEncoderBlock.__init__\<close>; \<open>dropout\<close> is a number or \<open>None\<close>.\<close>

definition StructuredTransformerEncoderBlock_init ::
  "('t, 's, 'g) block_parts \<Rightarrow> bool \<Rightarrow> real option \<Rightarrow> bool
     \<Rightarrow> ('t, 's, 'g) StructuredTransformerEncoderBlock" where
  "StructuredTransformerEncoderBlock_init parts batch_norm_arg dropout_arg pre_norm_arg =
     \<lparr> pre_norm = pre_norm_arg,
       batch_norm = batch_norm_arg,
       attention = connected_module parts,
       local = MLP_module parts,
       dropout = (case dropout_arg of
                    None \<Rightarrow> (\<lambda>g x. (x, g))
                  | Some p \<Rightarrow> Dropout_module parts p),
       bn = (if batch_norm_arg then LayerNorm_bn parts else (\<lambda>x. x)),
       local_bn = (if batch_norm_arg then LayerNorm_local_bn parts else (\<lambda>x. x)) \<rparr>"

text \<open>\<open>StructuredTransformerEncoderBlock.forward\<close>.\<close>

definition StructuredTransformerEncoderBlock_forward ::
  "('t::plus, 's, 'g) StructuredTransformerEncoderBlock \<Rightarrow> 't \<Rightarrow> 's \<Rightarrow> 'g \<Rightarrow> 't \<times> 'g" where
  "StructuredTransformerEncoderBlock_forward self features structure g =
     (if pre_norm self then
        let normed = bn self features;
            (d1, g1) = dropout self g (attention self normed normed structure);
            out1 = features + d1;
            (d2, g2) = dropout self g1 (local self (local_bn self out1));
            out2 = out1 + d2
        in (out2, g2)
      else
        let (d1, g1) = dropout self g (attention self features features structure);
            out1 = features + d1;
            out2 = bn self out1;
            (d2, g2) = dropout self g1 (local self out2);
            out3 = out2 + d2;
            out4 = local_bn self out3
        in (out4, g2))"

text \<open>
  The claim's words for one sublayer with its residual connection: the dropout of the
  sublayer's output is added to the sublayer's input, with the normalization applied
  to what the sublayer reads (pre-norm) or to the sum (post-norm).
\<close>

definition residual_sublayer ::
  "bool \<Rightarrow> ('t \<Rightarrow> 't) \<Rightarrow> ('g \<Rightarrow> 't \<Rightarrow> 't \<times> 'g) \<Rightarrow> ('t \<Rightarrow> 't) \<Rightarrow> 't::plus \<Rightarrow> 'g \<Rightarrow> 't \<times> 'g" where
  "residual_sublayer pre norm_fn dropout_fn sublayer x g =
     (if pre then
        (case dropout_fn g (sublayer (norm_fn x)) of (d, g') \<Rightarrow> (x + d, g'))
      else
        (case dropout_fn g (sublayer x) of (d, g') \<Rightarrow> (norm_fn (x + d), g')))"

section \<open>modules/protein_transformer.py: the encoder stack\<close>

record ('t, 's, 'g) StructuredTransformerEncoder =
  preprocessor :: "'t \<Rightarrow> 't"
  blocks :: "('t, 's, 'g) StructuredTransformerEncoderBlock list"

text \<open>
  \<open>StructuredTransformerEncoder.__init__\<close>. \<open>Linear_module\<close> is the module
  \<open>nn.Linear(in_size, size)\<close>, and \<open>parts k\<close> are the modules that the \<open>k\<close>-th run of
  the block constructor creates (each run creates its own). \<open>range(depth)\<close> is empty
  for a negative \<open>depth\<close>.
\<close>

definition StructuredTransformerEncoder_init ::
  "('t \<Rightarrow> 't) \<Rightarrow> (nat \<Rightarrow> ('t, 's, 'g) block_parts) \<Rightarrow> int \<Rightarrow> real option \<Rightarrow> bool \<Rightarrow> bool
     \<Rightarrow> ('t, 's, 'g) StructuredTransformerEncoder" where
  "StructuredTransformerEncoder_init Linear_module parts depth dropout_arg batch_norm_arg pre_norm_arg =
     \<lparr> preprocessor = Linear_module,
       blocks = map (\<lambda>k. StructuredTransformerEncoderBlock_init (parts k)
                            batch_norm_arg dropout_arg pre_norm_arg)
                    [0 ..< nat depth] \<rparr>"

text \<open>The loop \<open>for block in self.blocks\<close> of \<open>forward\<close>.\<close>

fun encoder_loop ::
  "('t::plus, 's, 'g) StructuredTransformerEncoderBlock list \<Rightarrow> 't \<Rightarrow> 's \<Rightarrow> 'g \<Rightarrow> 't \<times> 'g" where
  "encoder_loop [] out structure g = (out, g)"
| "encoder_loop (block # rest) out structure g =
     (case StructuredTransformerEncoderBlock_forward block out structure g of
        (out', g') \<Rightarrow> encoder_loop rest out' structure g')"

definition StructuredTransformerEncoder_forward ::
  "('t::plus, 's, 'g) StructuredTransformerEncoder \<Rightarrow> 't \<Rightarrow> 's \<Rightarrow> 'g \<Rightarrow> 't \<times> 'g" where
  "StructuredTransformerEncoder_forward self features structure g =
     encoder_loop (blocks self) (preprocessor self features) structure g"

section \<open>modules/protein_transformer.py: the model\<close>

text \<open>
  The angles of \<open>ProteinTransformer.forward\<close> are a two-dimensional tensor, the list of
  its rows (one row for every position of the sequence).
\<close>

type_synonym tensor = "real list list"

text \<open>
  \<open>nn.Linear(in_features, out_features)\<close> holds a weight matrix with one row for every
  output feature and a bias vector; it maps every row \<open>v\<close> of its argument to
  \<open>weight v + bias\<close>, and raises RuntimeError when the rows of the argument do not have
  \<open>in_features\<close> entries.
\<close>

record linear =
  in_features :: nat
  out_features :: nat
  weight :: matrix
  bias :: vector

definition nn_Linear :: "nat \<Rightarrow> nat \<Rightarrow> matrix \<times> vector \<Rightarrow> linear" where
  "nn_Linear n_in n_out parameters =
     \<lparr> in_features = n_in, out_features = n_out,
       weight = fst parameters, bias = snd parameters \<rparr>"

definition linear_dot :: "vector \<Rightarrow> vector \<Rightarrow> real" where
  "linear_dot u v = sum_list (map2 (*) u v)"

definition Linear_row :: "linear \<Rightarrow> vector \<Rightarrow> vector" where
  "Linear_row l v = map (\<lambda>k. linear_dot (weight l ! k) v + bias l ! k) [0 ..< out_features l]"

definition Linear_forward :: "linear \<Rightarrow> tensor \<Rightarrow> error + tensor" where
  "Linear_forward l t =
     (if list_all (\<lambda>row. length row = in_features l) t then Inr (map (Linear_row l) t)
      else Inl RuntimeError)"

text \<open>
  \<open>t.roll(1, dims=0)\<close>: every row moves one position down and the last row becomes
  the first. The result is a new tensor.
\<close>

definition torch_roll1 :: "'a list \<Rightarrow> 'a list" where
  "torch_roll1 rows = (if rows = [] then [] else last rows # butlast rows)"

text \<open>
  The attributes of a \<open>ProteinTransformer\<close>. \<open>mean\<close> is the module
  \<open>AngleProject(size, 3 * mix)\<close> of the repository, which is not among its sources here,
  and is a parameter.
\<close>

record ('s, 'g) ProteinTransformer =
  mix :: nat
  encoder :: "(tensor, 's, 'g) StructuredTransformerEncoder"
  preprocess :: linear
  mean :: "tensor \<Rightarrow> tensor"
  log_concentration :: linear
  weights :: linear
  factor :: linear

text \<open>
  What \<open>__init__\<close> obtains from outside the file: the modules of the encoder, the
  \<open>AngleProject\<close> module and the parameters (weight and bias) of the four \<open>nn.Linear\<close>
  layers.
\<close>

record ('s, 'g) ProteinTransformer_parts =
  encoder_Linear :: "tensor \<Rightarrow> tensor"
  encoder_block_parts :: "nat \<Rightarrow> (tensor, 's, 'g) block_parts"
  AngleProject_module :: "tensor \<Rightarrow> tensor"
  preprocess_parameters :: "matrix \<times> vector"
  log_concentration_parameters :: "matrix \<times> vector"
  weights_parameters :: "matrix \<times> vector"
  factor_parameters :: "matrix \<times> vector"

text \<open>
  \<open>ProteinTransformer.__init__\<close>. The encoder is built with \<open>dropout=0.1\<close> and the
  default \<open>pre_norm=True\<close>. \<open>size\<close> and \<open>mix\<close> are sizes of layers (\<open>nn.Linear\<close>
  refuses a negative one), natural numbers here.
\<close>

definition ProteinTransformer_init ::
  "('s, 'g) ProteinTransformer_parts \<Rightarrow> nat \<Rightarrow> nat \<Rightarrow> int \<Rightarrow> bool
     \<Rightarrow> ('s, 'g) ProteinTransformer" where
  "ProteinTransformer_init parts size_arg mix_arg depth batch_norm_arg =
     \<lparr> mix = mix_arg,
       encoder = StructuredTransformerEncoder_init (encoder_Linear parts)
                   (encoder_block_parts parts) depth (Some 0.1) batch_norm_arg True,
       preprocess = nn_Linear 6 size_arg (preprocess_parameters parts),
       mean = AngleProject_module parts,
       log_concentration = nn_Linear size_arg (3 * mix_arg) (log_concentration_parameters parts),
       weights = nn_Linear size_arg mix_arg (weights_parameters parts),
       factor = nn_Linear size_arg 3 (factor_parameters parts) \<rparr>"

text \<open>
  Lines 120 to 125 of \<open>forward\<close>: the angle features. \<open>previous_angles[0] = 0\<close> sets
  the first row to zero and raises IndexError on a tensor without rows;
  \<open>torch.cat((asin, acos), dim=1)\<close> puts the cosines of a row after its sines.
\<close>

definition angle_features ::
  "('s, 'g) ProteinTransformer \<Rightarrow> tensor \<Rightarrow> error + tensor" where
  "angle_features self angles =
     (if angles = [] then Inl IndexError
      else
        let rolled = torch_roll1 angles;
            previous_angles = rolled [0 := map (\<lambda>_. 0) (rolled ! 0)];
            asin = map (map sin) previous_angles;
            acos = map (map cos) previous_angles;
            afeat = map2 (@) asin acos
        in Linear_forward (preprocess self) afeat)"


subsection \<open>Line 126: the orientations\<close>

text \<open>
  Line 126 of \<open>forward\<close> calls \<open>self.orientations(tertiary)\<close>, which calls
  \<open>orientation\<close> of \<open>utils/geometry.py\<close>. What matters of the values in these two
  functions is which kind of object holds them, a torch tensor or a numpy array: numpy
  arrays have no method \<open>permute\<close>, and looking it up raises AttributeError.
\<close>

datatype 'a pyobject = TorchTensor 'a | NumpyArray 'a

fun payload :: "'a pyobject \<Rightarrow> 'a" where
  "payload (TorchTensor d) = d"
| "payload (NumpyArray d) = d"

text \<open>
  Sequencing of statements that may raise: the first exception ends the function.
\<close>

definition then_do :: "error + 'a \<Rightarrow> ('a \<Rightarrow> error + 'b) \<Rightarrow> error + 'b" where
  "then_do r f = (case r of Inl e \<Rightarrow> Inl e | Inr v \<Rightarrow> f v)"

text \<open>
  The operations of numpy and torch that the two functions use, on the data \<open>'a\<close> of an
  array. Each of them is a parameter and may raise: \<open>x[:, 1:]\<close>, \<open>x[:, :-1]\<close>,
  \<open>a - b\<close>, \<open>np.linalg.norm(x, axis=0)\<close>, \<open>x + 1e-6\<close>, \<open>a / b\<close>, \<open>x.T\<close>,
  \<open>np.cross(a, b)\<close>, \<open>np.array(v).reshape(3, 1)\<close> for a list \<open>v\<close> of three integers,
  \<open>np.concatenate(arrays, axis=k)\<close>, \<open>x.reshape(3, 3, -1)\<close>, \<open>np.isnan(x).any()\<close>,
  and of torch \<open>t[:, 1]\<close>, \<open>t.permute(dims)\<close>, \<open>t.contiguous()\<close> and
  \<open>t.view(u.size(0), -1)\<close>.
\<close>

record 'a array_ops =
  slice_from1 :: "'a \<Rightarrow> error + 'a"
  slice_to_last :: "'a \<Rightarrow> error + 'a"
  subtract :: "'a \<Rightarrow> 'a \<Rightarrow> error + 'a"
  linalg_norm0 :: "'a \<Rightarrow> error + 'a"
  add_epsilon :: "'a \<Rightarrow> error + 'a"
  divide :: "'a \<Rightarrow> 'a \<Rightarrow> error + 'a"
  transposed :: "'a \<Rightarrow> error + 'a"
  cross :: "'a \<Rightarrow> 'a \<Rightarrow> error + 'a"
  array_reshape31 :: "int list \<Rightarrow> error + 'a"
  concatenate :: "'a list \<Rightarrow> nat \<Rightarrow> error + 'a"
  reshape33 :: "'a \<Rightarrow> error + 'a"
  isnan_any :: "'a \<Rightarrow> error + bool"
  select1 :: "'a \<Rightarrow> error + 'a"
  permute :: "'a \<Rightarrow> nat list \<Rightarrow> error + 'a"
  contiguous :: "'a \<Rightarrow> error + 'a"
  view_rows :: "'a \<Rightarrow> 'a \<Rightarrow> error + 'a"

text \<open>
  \<open>v / (np.linalg.norm(v, axis=0) + 1e-6)\<close>, which \<open>orientation\<close> computes three
  times.
\<close>

definition normalize_columns :: "'a array_ops \<Rightarrow> 'a \<Rightarrow> error + 'a" where
  "normalize_columns ops v =
     then_do (linalg_norm0 ops v) (\<lambda>nrm.
     then_do (add_epsilon ops nrm) (\<lambda>den.
     divide ops v den))"

text \<open>
  \<open>orientation\<close> of \<open>utils/geometry.py\<close>, lines 79 to 98. The value it returns is the
  result of \<open>result.reshape(3, 3, -1)\<close> on the result of \<open>np.concatenate\<close>: a numpy
  array, whatever kind of object \<open>positions\<close> is. The \<open>print\<close> of line 96 is left out.
\<close>

definition orientation :: "'a array_ops \<Rightarrow> 'a pyobject \<Rightarrow> error + 'a pyobject" where
  "orientation ops positions =
     then_do (slice_from1 ops (payload positions)) (\<lambda>p1.
     then_do (slice_to_last ops (payload positions)) (\<lambda>p0.
     then_do (subtract ops p1 p0) (\<lambda>u0.
     then_do (normalize_columns ops u0) (\<lambda>u.
     then_do (slice_to_last ops u) (\<lambda>ua.
     then_do (slice_from1 ops u) (\<lambda>ub.
     then_do (subtract ops ua ub) (\<lambda>b0.
     then_do (normalize_columns ops b0) (\<lambda>b.
     then_do (slice_to_last ops u) (\<lambda>uc.
     then_do (transposed ops uc) (\<lambda>uct.
     then_do (slice_from1 ops u) (\<lambda>ud.
     then_do (transposed ops ud) (\<lambda>udt.
     then_do (cross ops uct udt) (\<lambda>n1.
     then_do (transposed ops n1) (\<lambda>n0.
     then_do (normalize_columns ops n0) (\<lambda>n.
     then_do (transposed ops b) (\<lambda>bt.
     then_do (transposed ops n) (\<lambda>nt.
     then_do (cross ops bt nt) (\<lambda>bxn1.
     then_do (transposed ops bxn1) (\<lambda>bxn.
     then_do (array_reshape31 ops [1, 0, 0]) (\<lambda>b_edge.
     then_do (array_reshape31 ops [0, 1, 0]) (\<lambda>n_edge.
     then_do (array_reshape31 ops [0, 0, 1]) (\<lambda>bxn_edge.
     then_do (concatenate ops [b_edge, n_edge, bxn_edge] 0) (\<lambda>edge.
     then_do (concatenate ops [b, n, bxn] 0) (\<lambda>result0.
     then_do (concatenate ops [edge, result0, edge] 1) (\<lambda>result1.
     then_do (reshape33 ops result1) (\<lambda>result.
     then_do (isnan_any ops result) (\<lambda>bad.
     Inr (NumpyArray result))))))))))))))))))))))))))))"

text \<open>
  A method call on an object: \<open>obj[:, 1]\<close> keeps the kind of \<open>obj\<close>; \<open>permute\<close>,
  \<open>contiguous\<close> and \<open>view\<close> are methods of torch tensors only.
\<close>

fun call_select1 :: "'a array_ops \<Rightarrow> 'a pyobject \<Rightarrow> error + 'a pyobject" where
  "call_select1 ops (TorchTensor d) = then_do (select1 ops d) (\<lambda>r. Inr (TorchTensor r))"
| "call_select1 ops (NumpyArray d) = then_do (select1 ops d) (\<lambda>r. Inr (NumpyArray r))"

fun call_permute :: "'a array_ops \<Rightarrow> 'a pyobject \<Rightarrow> nat list \<Rightarrow> error + 'a pyobject" where
  "call_permute ops (TorchTensor d) dims = then_do (permute ops d dims) (\<lambda>r. Inr (TorchTensor r))"
| "call_permute ops (NumpyArray d) dims = Inl AttributeError"

fun call_contiguous :: "'a array_ops \<Rightarrow> 'a pyobject \<Rightarrow> error + 'a pyobject" where
  "call_contiguous ops (TorchTensor d) = then_do (contiguous ops d) (\<lambda>r. Inr (TorchTensor r))"
| "call_contiguous ops (NumpyArray d) = Inl AttributeError"

fun call_view_rows :: "'a array_ops \<Rightarrow> 'a pyobject \<Rightarrow> 'a pyobject \<Rightarrow> error + 'a pyobject" where
  "call_view_rows ops (TorchTensor d) other =
     then_do (view_rows ops d (payload other)) (\<lambda>r. Inr (TorchTensor r))"
| "call_view_rows ops (NumpyArray d) other = Inl AttributeError"

text \<open>\<open>ProteinTransformer.orientations\<close>, lines 114 to 116.\<close>

definition orientations :: "'a array_ops \<Rightarrow> 'a pyobject \<Rightarrow> error + 'a pyobject" where
  "orientations ops tertiary =
     then_do (call_select1 ops tertiary) (\<lambda>middle.
     then_do (call_permute ops middle [1, 0]) (\<lambda>positions.
     then_do (orientation ops positions) (\<lambda>oriented.
     then_do (call_permute ops oriented [2, 0, 1]) (\<lambda>permuted.
     then_do (call_contiguous ops permuted) (\<lambda>ors.
     call_view_rows ops ors tertiary)))))"

text \<open>
  \<open>ProteinTransformer.forward\<close>: lines 120 to 125, line 126, and the rest of the body,
  lines 127 to 153. The rest is the parameter \<open>rest\<close>: a function of the features and
  of the orientations, with \<open>angles\<close>, \<open>tertiary\<close>, \<open>structure\<close>, \<open>subgraph\<close>, the
  modules of \<open>self\<close> and the state of the random generator fixed in it, that may raise
  or return a result of any type \<open>'r\<close>. A theorem about \<open>forward\<close> therefore holds
  whatever those lines compute.
\<close>

definition ProteinTransformer_forward ::
  "'a array_ops \<Rightarrow> ('s, 'g) ProteinTransformer \<Rightarrow> (tensor \<Rightarrow> 'a pyobject \<Rightarrow> error + 'r)
     \<Rightarrow> tensor \<Rightarrow> 'a pyobject \<Rightarrow> error + 'r" where
  "ProteinTransformer_forward ops self rest angles tertiary =
     then_do (angle_features self angles) (\<lambda>features.
     then_do (orientations ops tertiary) (\<lambda>ors.
     rest features ors))"

text \<open>
  A small transformer to run the definitions on: two features, two mixture
  components, one encoder block, and a \<open>preprocess\<close> layer that reads the sine and the
  cosine of the first angle. \<open>demo_angles\<close> are the angles of a sequence of two
  positions. \<open>demo_ops\<close> are array operations that never raise, on arrays without
  content.
\<close>

definition demo_transformer_parts :: "(unit, nat) ProteinTransformer_parts" where
  "demo_transformer_parts =
     \<lparr> encoder_Linear = (\<lambda>t. t),
       encoder_block_parts =
         (\<lambda>k. \<lparr> connected_module = (\<lambda>q v s. map (map (\<lambda>_. 0)) q),
                 MLP_module = (\<lambda>x. map (map (\<lambda>_. 0)) x),
                 Dropout_module = (\<lambda>p g x. (x, Suc g)),
                 LayerNorm_bn = (\<lambda>x. x),
                 LayerNorm_local_bn = (\<lambda>x. x) \<rparr>),
       AngleProject_module = (\<lambda>t. map (\<lambda>row. [row ! 0, row ! 1, 0, 0, 0, 0]) t),
       preprocess_parameters = ([[1, 0, 0, 0, 0, 0], [0, 0, 0, 1, 0, 0]], [0, 0]),
       log_concentration_parameters = (replicate 6 [0, 0], replicate 6 0),
       weights_parameters = ([[0, 0], [0, 0]], [0, 0]),
       factor_parameters = (replicate 3 [0, 0], [0, 0, 0]) \<rparr>"

definition demo_transformer :: "(unit, nat) ProteinTransformer" where
  "demo_transformer = ProteinTransformer_init demo_transformer_parts 2 2 1 False"

definition demo_angles :: tensor where
  "demo_angles = [[pi / 2, 0, 0], [pi, 0, 0]]"

definition demo_ops :: "unit array_ops" where
  "demo_ops =
     \<lparr> slice_from1 = (\<lambda>x. Inr ()), slice_to_last = (\<lambda>x. Inr ()),
       subtract = (\<lambda>a b. Inr ()), linalg_norm0 = (\<lambda>x. Inr ()),
       add_epsilon = (\<lambda>x. Inr ()), divide = (\<lambda>a b. Inr ()),
       transposed = (\<lambda>x. Inr ()), cross = (\<lambda>a b. Inr ()),
       array_reshape31 = (\<lambda>v. Inr ()), concatenate = (\<lambda>xs k. Inr ()),
       reshape33 = (\<lambda>x. Inr ()), isnan_any = (\<lambda>x. Inr False),
       select1 = (\<lambda>x. Inr ()), permute = (\<lambda>x dims. Inr ()),
       contiguous = (\<lambda>x. Inr ()), view_rows = (\<lambda>x y. Inr ()) \<rparr>"


text \<open>
  A small encoder to run the definitions on: tensors are integers, and the dropout module
  keeps its input at an even generator state and zeroes it at an odd one.
\<close>

definition demo_parts :: "nat \<Rightarrow> (int, unit, nat) block_parts" where
  "demo_parts k = \<lparr> connected_module = (\<lambda>q v s. q * int (k + 2)),
                    MLP_module = (\<lambda>x. x - 1),
                    Dropout_module = (\<lambda>p g x. (if even g then x else 0, Suc g)),
                    LayerNorm_bn = (\<lambda>x. 2 * x),
                    LayerNorm_local_bn = (\<lambda>x. x + 5) \<rparr>"

section \<open>Secondary structure assignment ignores the bond angle\<close>

text \<open>
  Claim C8. The result of \<open>_assign_psea_aux\<close> is the same for any two choices of
  \<open>angle\<close> and \<open>angle_spec\<close> when the other four arguments are fixed (the body tests
  the dihedral twice and never reads the bond angle), and therefore the class that
  \<open>assign_psea\<close> returns is the same for any two bond angles.
\<close>

theorem assign_psea_ignores_angle:
  "assign_psea_aux distances dihedral angle1 distance_spec dihedral_spec angle_spec1
     = assign_psea_aux distances dihedral angle2 distance_spec dihedral_spec angle_spec2
   \<and> assign_psea distances dihedral angle3 = assign_psea distances dihedral angle4"
  by (simp add: assign_psea_aux_def assign_psea_def)

section \<open>Relative orientation of numpy arrays\<close>

lemma has_shape_nth: "has_shape r n m \<Longrightarrow> i < r \<Longrightarrow> length (m ! i) = n"
  by (auto simp: has_shape_def list_all_length)

lemma has_shape_length: "has_shape r n m \<Longrightarrow> length m = r"
  by (simp add: has_shape_def)

lemma has_shape_ncols: "has_shape r n m \<Longrightarrow> 0 < r \<Longrightarrow> ncols m = n"
  by (cases m) (auto simp: has_shape_def ncols_def)

lemma has_shape_table: "has_shape r n (map (\<lambda>i. map (f i) [0..<n]) [0..<r])"
  by (simp add: has_shape_def list_all_length)

lemma has_shape_transpose:
  assumes "has_shape r n m" "0 < r"
  shows "transpose m = map (\<lambda>j. map (\<lambda>i. m ! i ! j) [0..<r]) [0..<n]"
proof -
  have "transpose m = map (\<lambda>j. map (\<lambda>i. m ! i ! j) [0..<length m]) [0..<n]"
    using assms by (intro transpose_rectangle) (auto simp: has_shape_def list_all_length)
  then show ?thesis using assms by (simp add: has_shape_def)
qed

lemma mat_sub_table:
  assumes "has_shape r n a" "has_shape r n b"
  shows "mat_sub A a b = map (\<lambda>i. map (\<lambda>j. f_sub A (a ! i ! j) (b ! i ! j)) [0..<n]) [0..<r]"
  unfolding mat_sub_def
  using assms
  by (intro nth_equalityI) (auto simp: has_shape_def list_all_length)

lemma np_sub_same_shape:
  assumes "has_shape r n a" "has_shape r n b" "0 < r"
  shows "np_sub A a b = Inr (mat_sub A a b)"
proof -
  have ca: "ncols a = n" and cb: "ncols b = n"
    using assms by (simp_all add: has_shape_ncols)
  have la: "length a = r" and lb: "length b = r"
    using assms by (simp_all add: has_shape_def)
  have "map (\<lambda>i. map (\<lambda>j. f_sub A (a ! (if r = 1 then 0 else i) ! (if n = 1 then 0 else j))
                                 (b ! (if r = 1 then 0 else i) ! (if n = 1 then 0 else j)))
                        [0 ..< n]) [0 ..< r]
        = map (\<lambda>i. map (\<lambda>j. f_sub A (a ! i ! j) (b ! i ! j)) [0..<n]) [0..<r]"
    by (intro map_cong refl) auto
  then show ?thesis
    by (simp add: np_sub_def Let_def ca cb la lb mat_sub_table [OF assms(1,2)])
qed

lemma matrix_to_quaternion_returns:
  assumes "has_shape r c m" "3 \<le> r" "3 \<le> c"
  shows "\<exists>q. matrix_to_quaternion A m = Inr q"
proof -
  have "length m = r" using assms by (simp add: has_shape_def)
  moreover have "length (m ! 0) = c" "length (m ! 1) = c" "length (m ! 2) = c"
    using assms by (simp_all add: has_shape_nth)
  ultimately show ?thesis
    using assms by (simp add: matrix_to_quaternion_def Let_def)
qed

lemma matmul_shape:
  assumes "has_shape r c b" "0 < r"
  shows "has_shape (length a) c (matmul A a b)"
  using assms
  by (simp add: matmul_def has_shape_transpose [OF assms] has_shape_def list_all_length)

lemma np_relative_orientation_unfold:
  assumes "np_sub A y x = Inr offset"
    and "length x_o = length offset"
    and "length y_o = length offset"
    and "matrix_to_quaternion A (matmul A (transpose x_o) y_o) = Inr rotation"
  shows "np_relative_orientation A x y x_o y_o =
           Inr (map (\<lambda>j. f_norm A (column j offset)) [0 ..< ncols offset],
                map (\<lambda>row. map2 (\<lambda>e d. if f_eq A d (f_lit A 0.0) then f_lit A 0 else e) row
                               (map (\<lambda>j. f_norm A (column j offset)) [0 ..< ncols offset]))
                  (matmul A (transpose x_o)
                     (map (\<lambda>row. map2 (f_div A) row
                                    (map (\<lambda>j. f_norm A (column j offset)) [0 ..< ncols offset]))
                          offset)),
                rotation)"
  using assms by (simp add: np_relative_orientation_def Let_def)

text \<open>
  Claim C3. On numpy arrays \<open>x\<close>, \<open>y\<close> of one shape with \<open>n\<close> columns and
  orientation matrices \<open>x_o\<close>, \<open>y_o\<close> with as many rows as \<open>x\<close> and at least three
  columns, \<open>relative_orientation\<close> returns a triple \<open>(distance, direction, rotation)\<close>,
  for every arithmetic \<open>A\<close>: \<open>distance[j]\<close> is the norm of column \<open>j\<close> of \<open>y - x\<close>;
  column \<open>j\<close> of \<open>direction\<close> is \<open>x_o\<close> transposed applied to that column divided by
  \<open>distance[j]\<close> where \<open>distance[j]\<close> does not compare equal to zero, and the zero
  vector where it does; \<open>rotation\<close> is the quaternion of \<open>x_o\<^sup>T y_o\<close>.
\<close>

theorem relative_orientation_numpy:
  assumes r: "0 < r"
    and x: "has_shape r n x" and y: "has_shape r n y"
    and xo: "has_shape r m x_o" and yo: "has_shape r m' y_o"
    and m: "3 \<le> m" and m': "3 \<le> m'"
  shows "\<exists>distance direction rotation.
           relative_orientation A x y x_o y_o = Inr (distance, direction, rotation)
           \<and> length distance = n
           \<and> has_shape m n direction
           \<and> matrix_to_quaternion A (matmul A (transpose x_o) y_o) = Inr rotation
           \<and> (\<forall>j<n. distance ! j = f_norm A (column j (mat_sub A y x))
                  \<and> (\<not> f_eq A (distance ! j) (f_lit A 0) \<longrightarrow>
                       column j direction
                         = matvec A (transpose x_o)
                             (map (\<lambda>c. f_div A c (distance ! j)) (column j (mat_sub A y x))))
                  \<and> (f_eq A (distance ! j) (f_lit A 0) \<longrightarrow>
                       column j direction = replicate m (f_lit A 0)))"
proof -
  define offset where "offset = mat_sub A y x"
  define distance where "distance = map (\<lambda>j. f_norm A (column j offset)) [0 ..< n]"
  define quotient where "quotient = map (\<lambda>row. map2 (f_div A) row distance) offset"
  define direction0 where "direction0 = matmul A (transpose x_o) quotient"
  define direction where
    "direction = map (\<lambda>row. map2 (\<lambda>e d. if f_eq A d (f_lit A 0.0) then f_lit A 0 else e)
                                  row distance) direction0"
  have off_tab: "offset = map (\<lambda>i. map (\<lambda>j. f_sub A (y ! i ! j) (x ! i ! j)) [0..<n]) [0..<r]"
    unfolding offset_def by (rule mat_sub_table [OF y x])
  have off_shape: "has_shape r n offset"
    unfolding off_tab by (rule has_shape_table)
  have off_cols: "ncols offset = n"
    by (rule has_shape_ncols [OF off_shape r])
  have sub: "np_sub A y x = Inr offset"
    unfolding offset_def by (rule np_sub_same_shape [OF y x r])
  have len_dist: "length distance = n"
    by (simp add: distance_def)
  have q_shape: "has_shape r n quotient"
    using off_shape len_dist
    by (simp add: quotient_def has_shape_def list_all_length)
  have q_nth: "quotient ! k ! j = f_div A (offset ! k ! j) (distance ! j)"
    if "k < r" "j < n" for k j
    using that off_shape len_dist
    by (simp add: quotient_def has_shape_def list_all_length)
  have xoT: "transpose x_o = map (\<lambda>i. map (\<lambda>k. x_o ! k ! i) [0..<r]) [0..<m]"
    by (rule has_shape_transpose [OF xo r])
  have xoT_shape: "has_shape m r (transpose x_o)"
    unfolding xoT by (rule has_shape_table)
  have qT: "transpose quotient = map (\<lambda>j. map (\<lambda>k. quotient ! k ! j) [0..<r]) [0..<n]"
    by (rule has_shape_transpose [OF q_shape r])
  have d0_shape: "has_shape m n direction0"
    using xoT_shape by (simp add: direction0_def matmul_def qT has_shape_def list_all_length)
  have d0_nth: "direction0 ! i ! j = f_dot A (transpose x_o ! i) (map (\<lambda>k. quotient ! k ! j) [0..<r])"
    if "i < m" "j < n" for i j
    using that xoT_shape by (simp add: direction0_def matmul_def qT has_shape_def)
  have d_shape: "has_shape m n direction"
    using d0_shape len_dist by (simp add: direction_def has_shape_def list_all_length)
  have d_nth: "direction ! i ! j
                 = (if f_eq A (distance ! j) (f_lit A 0) then f_lit A 0 else direction0 ! i ! j)"
    if "i < m" "j < n" for i j
    using that d0_shape len_dist by (simp add: direction_def has_shape_def list_all_length)
  have rot_shape: "has_shape m m' (matmul A (transpose x_o) y_o)"
    using matmul_shape [OF yo r, of "transpose x_o" A] xoT_shape by (simp add: has_shape_def)
  obtain rotation where
    rot: "matrix_to_quaternion A (matmul A (transpose x_o) y_o) = Inr rotation"
    using matrix_to_quaternion_returns [OF rot_shape m m'] by blast
  have result: "relative_orientation A x y x_o y_o = Inr (distance, direction, rotation)"
    unfolding relative_orientation_def direction_def direction0_def quotient_def distance_def
    using np_relative_orientation_unfold [OF sub _ _ rot]
      has_shape_length [OF off_shape] has_shape_length [OF yo] has_shape_length [OF xo]
    by (simp add: off_cols)
  have cols: "distance ! j = f_norm A (column j (mat_sub A y x))
                  \<and> (\<not> f_eq A (distance ! j) (f_lit A 0) \<longrightarrow>
                       column j direction
                         = matvec A (transpose x_o)
                             (map (\<lambda>c. f_div A c (distance ! j)) (column j (mat_sub A y x))))
                  \<and> (f_eq A (distance ! j) (f_lit A 0) \<longrightarrow>
                       column j direction = replicate m (f_lit A 0))"
    if j: "j < n" for j
  proof (intro conjI impI)
    show "distance ! j = f_norm A (column j (mat_sub A y x))"
      using j by (simp add: distance_def offset_def)
  next
    assume z: "f_eq A (distance ! j) (f_lit A 0)"
    show "column j direction = replicate m (f_lit A 0)"
      using d_shape j z
      by (intro nth_equalityI) (simp_all add: column_def has_shape_def d_nth)
  next
    assume nz: "\<not> f_eq A (distance ! j) (f_lit A 0)"
    have colj: "column j offset = map (\<lambda>k. offset ! k ! j) [0..<r]"
      using off_shape by (intro nth_equalityI) (simp_all add: column_def has_shape_def)
    define w where "w = map (\<lambda>c. f_div A c (distance ! j)) (column j offset)"
    have qcol: "map (\<lambda>k. quotient ! k ! j) [0..<r] = w"
      using j by (simp add: w_def colj q_nth)
    have e: "direction ! i ! j = f_dot A (transpose x_o ! i) w" if "i < m" for i
    proof -
      have "direction ! i ! j = direction0 ! i ! j"
        using d_nth [OF that j] nz by simp
      also have "\<dots> = f_dot A (transpose x_o ! i) w"
        unfolding d0_nth [OF that j] qcol ..
      finally show ?thesis .
    qed
    have "column j direction = matvec A (transpose x_o) w"
      using d_shape xoT_shape
      by (intro nth_equalityI) (simp_all add: column_def has_shape_def e matvec_def)
    then show "column j direction
            = matvec A (transpose x_o)
                (map (\<lambda>c. f_div A c (distance ! j)) (column j (mat_sub A y x)))"
      by (simp only: w_def offset_def)
  qed
  show ?thesis
    using result len_dist d_shape rot cols by blast
qed

lemma upt_2: "[0 ..< 2] = [0, 1]"
  by (simp add: upt_rec)

lemma upt_3: "[0 ..< 3] = [0, 1, 2]"
  by (simp add: upt_rec)

lemma relative_orientation_example:
  "relative_orientation exact_arithmetic
      [[Some 0, Some 1], [Some 0, Some 1], [Some 0, Some 1]]
      [[Some 0, Some 1], [Some 0, Some 1], [Some 2, Some 1]]
      [[Some 1, Some 0, Some 0], [Some 0, Some 0, Some (-1)], [Some 0, Some 1, Some 0]]
      [[Some 1, Some 0, Some 0], [Some 0, Some 0, Some (-1)], [Some 0, Some 1, Some 0]]
   = Inr ([Some 2, Some 0],
          [[Some 0, Some 0], [Some 1, Some 0], [Some 0, Some 0]],
          [Some 1, Some 0, Some 0, Some 0])"
  by (simp add: relative_orientation_def np_relative_orientation_def np_sub_def ncols_def
        column_def Let_def upt_2 upt_3 matmul_def matrix_to_quaternion_def
        exact_arithmetic_def)

text \<open>
  The theorem on two points in space, in the exact arithmetic: the first column has the
  offset \<open>(0, 0, 2)\<close> of length 2, the second column the offset zero, whose quotient
  \<open>0/0\<close> the assignment overwrites; \<open>x_o = y_o\<close> is the quarter turn about the first
  axis.
\<close>

theorem relative_orientation_numpy_witness:
  "(0::nat) < 3
   \<and> has_shape 3 2 [[Some 0, Some 1], [Some 0, Some 1], [Some 0, Some (1::real)]]
   \<and> has_shape 3 2 [[Some 0, Some 1], [Some 0, Some 1], [Some 2, Some (1::real)]]
   \<and> has_shape 3 3
        [[Some 1, Some 0, Some 0], [Some 0, Some 0, Some (-1)], [Some 0, Some 1, Some (0::real)]]
   \<and> (3::nat) \<le> 3
   \<and> relative_orientation exact_arithmetic
        [[Some 0, Some 1], [Some 0, Some 1], [Some 0, Some 1]]
        [[Some 0, Some 1], [Some 0, Some 1], [Some 2, Some 1]]
        [[Some 1, Some 0, Some 0], [Some 0, Some 0, Some (-1)], [Some 0, Some 1, Some 0]]
        [[Some 1, Some 0, Some 0], [Some 0, Some 0, Some (-1)], [Some 0, Some 1, Some 0]]
       = Inr ([Some 2, Some 0],
              [[Some 0, Some 0], [Some 1, Some 0], [Some 0, Some 0]],
              [Some 1, Some 0, Some 0, Some 0])
   \<and> column 0 [[Some 0, Some 0], [Some 1, Some 0], [Some 0, Some (0::real)]]
       = matvec exact_arithmetic
           (transpose [[Some 1, Some 0, Some 0], [Some 0, Some 0, Some (-1)],
                       [Some 0, Some 1, Some 0]])
           (map (\<lambda>c. f_div exact_arithmetic c (Some 2))
              (column 0 (mat_sub exact_arithmetic
                           [[Some 0, Some 1], [Some 0, Some 1], [Some 2, Some 1]]
                           [[Some 0, Some 1], [Some 0, Some 1], [Some 0, Some 1]])))
   \<and> column 1 [[Some 0, Some 0], [Some 1, Some 0], [Some 0, Some (0::real)]]
       = replicate 3 (Some 0)"
proof -
  let ?x = "[[Some 0, Some 1], [Some 0, Some 1], [Some 0, Some (1::real)]]"
  let ?y = "[[Some 0, Some 1], [Some 0, Some 1], [Some 2, Some (1::real)]]"
  let ?o = "[[Some 1, Some 0, Some 0], [Some 0, Some 0, Some (-1)], [Some 0, Some 1, Some (0::real)]]"
  let ?d = "[[Some 0, Some 0], [Some 1, Some 0], [Some 0, Some (0::real)]]"
  have r: "(0::nat) < 3" and m: "(3::nat) \<le> 3" by simp_all
  have x: "has_shape 3 2 ?x" and y: "has_shape 3 2 ?y" and o: "has_shape 3 3 ?o"
    by (simp_all add: has_shape_def)
  from relative_orientation_numpy [OF r x y o o m m, of exact_arithmetic]
  obtain distance direction rotation where
    res: "relative_orientation exact_arithmetic ?x ?y ?o ?o = Inr (distance, direction, rotation)"
    and cols: "\<forall>j<2. distance ! j = f_norm exact_arithmetic (column j (mat_sub exact_arithmetic ?y ?x))
            \<and> (\<not> f_eq exact_arithmetic (distance ! j) (f_lit exact_arithmetic 0) \<longrightarrow>
                  column j direction
                    = matvec exact_arithmetic (transpose ?o)
                        (map (\<lambda>c. f_div exact_arithmetic c (distance ! j))
                           (column j (mat_sub exact_arithmetic ?y ?x))))
            \<and> (f_eq exact_arithmetic (distance ! j) (f_lit exact_arithmetic 0) \<longrightarrow>
                  column j direction = replicate 3 (f_lit exact_arithmetic 0))"
    by blast
  from res relative_orientation_example
  have d: "distance = [Some 2, Some 0]" and e: "direction = ?d"
    by simp_all
  from cols have c0: "\<not> f_eq exact_arithmetic (distance ! 0) (f_lit exact_arithmetic 0) \<longrightarrow>
                  column 0 direction
                    = matvec exact_arithmetic (transpose ?o)
                        (map (\<lambda>c. f_div exact_arithmetic c (distance ! 0))
                           (column 0 (mat_sub exact_arithmetic ?y ?x)))"
    and c1: "f_eq exact_arithmetic (distance ! 1) (f_lit exact_arithmetic 0) \<longrightarrow>
               column 1 direction = replicate 3 (f_lit exact_arithmetic 0)"
    by simp_all
  have z0: "\<not> f_eq exact_arithmetic (Some 2) (f_lit exact_arithmetic 0)"
    and z1: "f_eq exact_arithmetic (Some 0) (f_lit exact_arithmetic 0)"
    and l0: "f_lit exact_arithmetic 0 = Some 0"
    by (simp_all add: exact_arithmetic_def)
  have 1: "column 0 ?d
       = matvec exact_arithmetic (transpose ?o)
           (map (\<lambda>c. f_div exact_arithmetic c (Some 2))
              (column 0 (mat_sub exact_arithmetic ?y ?x)))"
    using c0 z0 unfolding d e by simp
  have 2: "column 1 ?d = replicate 3 (Some 0)"
    using c1 z1 l0 unfolding d e by simp
  from r m x y o relative_orientation_example 1 2 show ?thesis by simp
qed

section \<open>The encoder block and the encoder stack\<close>

text \<open>
  Claim C7. For either value of \<open>pre_norm\<close>, the block's \<open>forward\<close> is two residual
  sublayers in a row: the dropout of the attention sublayer's output is added to the
  block input, then the dropout of the MLP sublayer's output is added to that
  intermediate result; the normalization (\<open>bn\<close>, then \<open>local_bn\<close>) is applied to what
  each sublayer reads when \<open>pre_norm\<close> holds and to each sum otherwise.
\<close>

theorem block_forward_residual:
  "StructuredTransformerEncoderBlock_forward self features structure g =
     (case residual_sublayer (pre_norm self) (bn self) (dropout self)
             (\<lambda>x. attention self x x structure) features g of
        (mid, g1) \<Rightarrow>
          residual_sublayer (pre_norm self) (local_bn self) (dropout self) (local self) mid g1)"
  by (simp add: StructuredTransformerEncoderBlock_forward_def residual_sublayer_def Let_def
           split: prod.splits)

text \<open>
  Claim C10. A block constructed with \<open>batch_norm = False\<close> and \<open>dropout = None\<close> has
  the same \<open>forward\<close> for \<open>pre_norm = True\<close> and \<open>pre_norm = False\<close>: in both cases
  \<open>out = features + attention(features, features, structure)\<close> and the result is
  \<open>out + local(out)\<close>, the generator state being left as it was.
\<close>

theorem block_forward_without_norm_and_dropout:
  "StructuredTransformerEncoderBlock_forward
      (StructuredTransformerEncoderBlock_init parts False None True) features structure g
   = StructuredTransformerEncoderBlock_forward
      (StructuredTransformerEncoderBlock_init parts False None False) features structure g
   \<and> StructuredTransformerEncoderBlock_forward
      (StructuredTransformerEncoderBlock_init parts False None pn) features structure g
   = (let out = features + connected_module parts features features structure
      in (out + MLP_module parts out, g))"
  by (simp add: StructuredTransformerEncoderBlock_forward_def
        StructuredTransformerEncoderBlock_init_def Let_def)

lemma encoder_loop_foldl:
  "encoder_loop bs out structure g =
     foldl (\<lambda>(acc, h) b. StructuredTransformerEncoderBlock_forward b acc structure h) (out, g) bs"
  by (induction bs arbitrary: out g) (auto split: prod.splits)

text \<open>
  Claim C6. An encoder constructed with a depth that is not negative holds exactly
  \<open>depth\<close> blocks, the \<open>k\<close>-th of them the \<open>k\<close>-th one constructed, and its
  \<open>forward\<close> is the input projection \<open>preprocessor\<close> (the \<open>nn.Linear\<close> module)
  followed by the blocks applied one after the other in that order, and nothing else.
\<close>

theorem encoder_forward_sequential:
  assumes "0 \<le> depth"
    and "enc = StructuredTransformerEncoder_init Linear_module parts depth
                 dropout_arg batch_norm_arg pre_norm_arg"
  shows "int (length (blocks enc)) = depth
    \<and> blocks enc = map (\<lambda>k. StructuredTransformerEncoderBlock_init (parts k)
                            batch_norm_arg dropout_arg pre_norm_arg) [0 ..< nat depth]
    \<and> StructuredTransformerEncoder_forward enc features structure g =
        foldl (\<lambda>(acc, h) b. StructuredTransformerEncoderBlock_forward b acc structure h)
          (preprocessor enc features, g) (blocks enc)
    \<and> preprocessor enc = Linear_module"
  using assms
  by (simp add: StructuredTransformerEncoder_init_def StructuredTransformerEncoder_forward_def
        encoder_loop_foldl)

lemma demo_encoder_value:
  "StructuredTransformerEncoder_forward
     (StructuredTransformerEncoder_init (\<lambda>x. x + 1) demo_parts 2 (Some 0.1) True True)
     3 () 0 = (140, 4)"
  by code_simp

text \<open>
  The theorem at a depth of 2 on the small encoder: two blocks, and the input 3 is
  projected to 4 and taken through both blocks to 140.
\<close>

theorem encoder_forward_sequential_witness:
  "(0::int) \<le> 2
   \<and> int (length (blocks (StructuredTransformerEncoder_init (\<lambda>x. x + 1) demo_parts 2
                            (Some 0.1) True True))) = 2
   \<and> foldl (\<lambda>(acc, h) b. StructuredTransformerEncoderBlock_forward b acc () h) (4, 0)
        (blocks (StructuredTransformerEncoder_init (\<lambda>x. x + 1) demo_parts 2 (Some 0.1) True True))
       = (140, 4)"
proof -
  have d: "(0::int) \<le> 2" by simp
  note t = encoder_forward_sequential
             [OF d refl, of "\<lambda>x. x + 1" demo_parts "Some 0.1" True True 3 "()" 0]
  show ?thesis
    using t demo_encoder_value by simp
qed

section \<open>The protein transformer\<close>






lemma demo_angle_features:
  "angle_features demo_transformer demo_angles = Inr [[0, 1], [1, 0]]"
  by (simp add: angle_features_def demo_transformer_def demo_angles_def
        ProteinTransformer_init_def nn_Linear_def demo_transformer_parts_def torch_roll1_def
        Linear_forward_def Linear_row_def linear_dot_def upt_2 Let_def)


subsection \<open>Line 126 raises\<close>

lemma then_do_Inr:
  assumes "then_do r f = Inr v"
  obtains x where "r = Inr x" and "f x = Inr v"
  using assms by (cases r) (simp_all add: then_do_def)

lemma then_do_Inl: "then_do (Inl e) f = Inl e"
  by (simp add: then_do_def)

lemma then_do_Inr_simp: "then_do (Inr x) f = f x"
  by (simp add: then_do_def)

lemma orientation_returns_numpy:
  assumes "orientation ops positions = Inr v"
  shows "\<exists>d. v = NumpyArray d"
  using assms unfolding orientation_def
  by (elim then_do_Inr) auto

lemma permute_numpy_raises:
  assumes "orientation ops positions = Inr oriented"
  shows "call_permute ops oriented dims = Inl AttributeError"
  using orientation_returns_numpy [OF assms] by auto

lemma orientations_raises: "\<exists>e. orientations ops tertiary = Inl e"
proof (cases "call_select1 ops tertiary")
  case (Inl e)
  then show ?thesis by (simp only: orientations_def then_do_Inl) blast
next
  case middle: (Inr middle)
  show ?thesis
  proof (cases "call_permute ops middle [1, 0]")
    case (Inl e)
    then show ?thesis
      by (simp only: orientations_def middle then_do_Inl then_do_Inr_simp) blast
  next
    case positions: (Inr positions)
    show ?thesis
    proof (cases "orientation ops positions")
      case (Inl e)
      then show ?thesis
        by (simp only: orientations_def middle positions then_do_Inl then_do_Inr_simp) blast
    next
      case (Inr oriented)
      then show ?thesis
        by (simp only: orientations_def middle positions permute_numpy_raises [OF Inr]
              then_do_Inl then_do_Inr_simp) blast
    qed
  qed
qed

lemma demo_orientations:
  "orientations demo_ops (TorchTensor ()) = Inl AttributeError"
  by (simp add: orientations_def orientation_def normalize_columns_def demo_ops_def
        then_do_def)

text \<open>
  Claim C4. \<open>forward\<close> returns on no input. Line 126 calls \<open>self.orientations\<close>, whose
  line 115 calls \<open>permute\<close> on what \<open>orientation\<close> returns, a numpy array:
  whatever the angles, the tertiary structure, the array operations and the lines after
  line 126 are, \<open>forward\<close> raises, so it returns no mixture weights and no parameters.
  On the small transformer, with array operations that never raise and a tertiary
  structure that is a torch tensor, the exception is AttributeError.
\<close>

theorem forward_raises:
  "(\<exists>e. ProteinTransformer_forward ops self rest angles tertiary = Inl e)
   \<and> ProteinTransformer_forward demo_ops demo_transformer
         (\<lambda>features ors. Inr (features, ors)) demo_angles (TorchTensor ())
       = Inl AttributeError"
proof
  show "\<exists>e. ProteinTransformer_forward ops self rest angles tertiary = Inl e"
  proof (cases "angle_features self angles")
    case (Inl e)
    then show ?thesis by (simp add: ProteinTransformer_forward_def then_do_Inl)
  next
    case (Inr features)
    obtain e where "orientations ops tertiary = Inl e"
      using orientations_raises by blast
    then show ?thesis
      by (simp add: ProteinTransformer_forward_def Inr then_do_Inl then_do_Inr_simp)
  qed
  show "ProteinTransformer_forward demo_ops demo_transformer
          (\<lambda>features ors. Inr (features, ors)) demo_angles (TorchTensor ())
        = Inl AttributeError"
    by (simp add: ProteinTransformer_forward_def demo_angle_features demo_orientations
          then_do_Inl then_do_Inr_simp)
qed

end
